theory Spec2Isabelle
  imports Main
begin

section \<open>Salt states managing the Jenkins configuration (\<^verbatim>\<open>_states/jenkins_config.py\<close>)\<close>

text \<open>
  The module edits Jenkins' XML configuration files through lxml.  The embedding
  keeps the module's function names, without the leading underscore that HOL names
  cannot carry (\<^verbatim>\<open>_insert_docker\<close> is \<open>insert_docker\<close>, and so on).

  Conventions of the embedding:
  \<^item> an lxml element is a value of the datatype \<open>element\<close>; a reference to a child
    element (what \<^verbatim>\<open>find\<close>, \<^verbatim>\<open>findall\<close> and \<^verbatim>\<open>SubElement\<close> return) is the position
    of that child in its parent's list of children, and an in-place update through
    such a reference replaces the child at that position;
  \<^item> a raised exception is the left injection of a sum;
  \<^item> the configuration files are a map from path to contents, threaded through
    every function that can read or write them;
  \<^item> documents consist of elements with attributes and text (no tail text,
    comments or processing instructions), with characters below code point 256.
\<close>

subsection \<open>Python values and exceptions\<close>

datatype pyexc =
    NameError string
  | TypeError string
  | ValueError string
  | KeyError string
  | IOError string
  | XMLSyntaxError

datatype pyval = PyStr string | PyInt int

fun digits :: "nat \<Rightarrow> string" where
  "digits n =
     (if n < 10 then [''0123456789'' ! n]
      else digits (n div 10) @ [''0123456789'' ! (n mod 10)])"

declare digits.simps [simp del]

text \<open>\<^verbatim>\<open>str(text)\<close>: a string is itself, an integer is its decimal numeral.\<close>

fun str :: "pyval \<Rightarrow> string" where
  "str (PyStr s) = s"
| "str (PyInt i) = (if i < 0 then CHR ''-'' # digits (nat (- i)) else digits (nat i))"

subsection \<open>Element trees\<close>

datatype element =
  Element (tag: string) (attrib: "(string \<times> string) list")
          (etext: "string option") (children: "element list")

datatype element_tree = ElementTree (getroot: element)

text \<open>\<^verbatim>\<open>parent.find(tagname)\<close>: the first child with that tag, or \<^verbatim>\<open>None\<close>.\<close>

fun find_child :: "string \<Rightarrow> element list \<Rightarrow> nat option" where
  "find_child tagname [] = None"
| "find_child tagname (c # cs) =
     (if tag c = tagname then Some 0 else map_option Suc (find_child tagname cs))"

text \<open>\<^verbatim>\<open>parent.findall(tagname)\<close>: every child with that tag, in document order,
  each with its position.\<close>

fun findall_from :: "nat \<Rightarrow> string \<Rightarrow> element list \<Rightarrow> (nat \<times> element) list" where
  "findall_from k tagname [] = []"
| "findall_from k tagname (c # cs) =
     (if tag c = tagname then (k, c) # findall_from (Suc k) tagname cs
      else findall_from (Suc k) tagname cs)"

definition findall :: "string \<Rightarrow> element \<Rightarrow> (nat \<times> element) list" where
  "findall tagname parent = findall_from 0 tagname (children parent)"

definition child :: "element \<Rightarrow> nat \<Rightarrow> element" where
  "child parent i = children parent ! i"

definition set_child :: "element \<Rightarrow> nat \<Rightarrow> element \<Rightarrow> element" where
  "set_child parent i c =
     Element (tag parent) (attrib parent) (etext parent) ((children parent)[i := c])"

definition set_text :: "element \<Rightarrow> string option \<Rightarrow> element" where
  "set_text e t = Element (tag e) (attrib e) t (children e)"

text \<open>
  lxml checks every string it is given.  Text and attribute values must be XML
  compatible: no NUL and no control character but tab, line feed and carriage
  return.  A tag or attribute name must be an XML name without a colon: a letter
  or an underscore, then letters, digits, underscores, hyphens, full stops and
  the middle dot.  (Names are plain names; the \<^verbatim>\<open>{namespace}\<close> prefix of lxml is
  not modelled.)  A string that fails its check raises \<^verbatim>\<open>ValueError\<close>.
\<close>

definition xml_char :: "char \<Rightarrow> bool" where
  "xml_char c =
     (let n = (of_char c :: nat) in n = 9 \<or> n = 10 \<or> n = 13 \<or> 32 \<le> n)"

definition xml_compatible :: "string \<Rightarrow> bool" where
  "xml_compatible s = list_all xml_char s"

definition name_start_char :: "char \<Rightarrow> bool" where
  "name_start_char c =
     (let n = (of_char c :: nat)
      in (65 \<le> n \<and> n \<le> 90) \<or> (97 \<le> n \<and> n \<le> 122) \<or> n = 95
         \<or> (192 \<le> n \<and> n \<le> 214) \<or> (216 \<le> n \<and> n \<le> 246) \<or> 248 \<le> n)"

definition name_char :: "char \<Rightarrow> bool" where
  "name_char c =
     (let n = (of_char c :: nat)
      in name_start_char c \<or> (48 \<le> n \<and> n \<le> 57) \<or> n = 45 \<or> n = 46 \<or> n = 183)"

definition valid_name :: "string \<Rightarrow> bool" where
  "valid_name s =
     (case s of [] \<Rightarrow> False | c # cs \<Rightarrow> name_start_char c \<and> list_all name_char cs)"

text \<open>
  \<^verbatim>\<open>etree.SubElement(parent, tagname, attrib)\<close>: appends a new, empty child and
  returns it.  The tag is checked before the child is made; when an attribute
  fails its check the child is taken out again, so a call that raises leaves the
  parent as it was.
\<close>

definition SubElement ::
  "element \<Rightarrow> string \<Rightarrow> (string \<times> string) list \<Rightarrow> (pyexc + nat) \<times> element" where
  "SubElement parent tagname att =
     (if valid_name tagname then
        (if list_all (\<lambda>(k, v). valid_name k \<and> xml_compatible v) att then
           (Inr (length (children parent)),
            Element (tag parent) (attrib parent) (etext parent)
                    (children parent @ [Element tagname att None []]))
         else (Inl (ValueError ''Invalid attribute''), parent))
      else (Inl (ValueError ''Invalid tag name''), parent))"

text \<open>
  The assignment \<^verbatim>\<open>element.text = value\<close> for a string: lxml removes the text the
  element has, then checks the new string, so an assignment that raises leaves
  the element without text.
\<close>

definition assign_text :: "element \<Rightarrow> string \<Rightarrow> (pyexc + unit) \<times> element" where
  "assign_text e s =
     (if xml_compatible s then (Inr (), set_text e (Some s))
      else (Inl (ValueError ''All strings must be XML compatible''), set_text e None))"

subsection \<open>The element primitives of the module\<close>

text \<open>Each primitive gives back what it returned or raised, and the parent after
  it.\<close>

definition find_or_add :: "string \<Rightarrow> element \<Rightarrow> (pyexc + nat) \<times> element" where
  "find_or_add tagname parent =
     (case find_child tagname (children parent) of
        None \<Rightarrow> SubElement parent tagname []
      | Some i \<Rightarrow> (Inr i, parent))"

text \<open>\<^verbatim>\<open>_subelement_with_text\<close>: when the assignment of the text raises, the child
  that \<^verbatim>\<open>SubElement\<close> appended stays in the parent, without text.\<close>

definition subelement_with_text ::
  "element \<Rightarrow> string \<Rightarrow> pyval \<Rightarrow> (pyexc + nat) \<times> element" where
  "subelement_with_text parent tagname txt =
     (case SubElement parent tagname [] of
        (Inl e, parent1) \<Rightarrow> (Inl e, parent1)
      | (Inr i, parent1) \<Rightarrow>
          (case assign_text (child parent1 i) (str txt) of
             (Inl e, c) \<Rightarrow> (Inl e, set_child parent1 i c)
           | (Inr u, c) \<Rightarrow> (Inr i, set_child parent1 i c)))"

text \<open>
  The module uses \<^verbatim>\<open>wraps\<close> in both decorators and never imports it.  It is taken
  to be \<^verbatim>\<open>functools.wraps\<close>, which hands back the wrapper with the metadata of the
  wrapped function: the behaviour is the wrapper's.
\<close>

definition wraps :: "'f \<Rightarrow> 'w \<Rightarrow> 'w" where
  "wraps func wrapper = wrapper"

text \<open>
  \<^verbatim>\<open>_root_tag(tagname)\<close>: the decorated function runs only when the root of the tree
  carries the expected tag; otherwise \<^verbatim>\<open>ValueError\<close> is raised and the tree is as
  it was.  A mutator takes the tree and its other arguments and gives back what it
  returned or raised, and the tree after it.
\<close>

definition root_tag ::
  "string \<Rightarrow> (element_tree \<Rightarrow> 'a \<Rightarrow> (pyexc + 'r) \<times> element_tree)
     \<Rightarrow> element_tree \<Rightarrow> 'a \<Rightarrow> (pyexc + 'r) \<times> element_tree" where
  "root_tag tagname func =
     wraps func (\<lambda>tree args.
       let root = getroot tree
       in if tag root \<noteq> tagname
          then (Inl (ValueError (''root element is not the <'' @ tagname @ ''> tag'')), tree)
          else func tree args)"

subsection \<open>The docker cloud mutator\<close>

definition dockercloud_tag :: string where
  "dockercloud_tag = ''com.nirima.jenkins.plugins.docker.DockerCloud''"

text \<open>
  The \<^verbatim>\<open>for ... else\<close> loop of \<^verbatim>\<open>_insert_docker\<close> over
  \<^verbatim>\<open>clouds.findall(dockercloud_tag)\<close>: \<open>Some i\<close> when the loop left by \<^verbatim>\<open>break\<close> at
  the entry at position \<open>i\<close>, \<open>None\<close> when it ran to its end (the \<^verbatim>\<open>else\<close> branch).
  The test compares the text of the entry's first \<^verbatim>\<open>name\<close> child with the string
  literal \<^verbatim>\<open>'name'\<close>, as the source does.
\<close>

fun for_dockercloud :: "(nat \<times> element) list \<Rightarrow> nat option" where
  "for_dockercloud [] = None"
| "for_dockercloud ((i, dockercloud) # rest) =
     (case find_child ''name'' (children dockercloud) of
        None \<Rightarrow> for_dockercloud rest
      | Some n \<Rightarrow>
          if etext (child dockercloud n) = Some ''name'' then Some i
          else for_dockercloud rest)"

text \<open>One statement after another on the same element: the next statement runs on
  the element as the one before left it, unless that one raised.\<close>

definition and_then ::
  "(pyexc + 'a) \<times> element \<Rightarrow> (element \<Rightarrow> (pyexc + 'b) \<times> element)
     \<Rightarrow> (pyexc + 'b) \<times> element" where
  "and_then m f = (case m of (Inl e, p) \<Rightarrow> (Inl e, p) | (Inr x, p) \<Rightarrow> f p)"

text \<open>Lines 93 to 101 of \<^verbatim>\<open>_insert_docker\<close>: the fields of the entry, appended one
  after another.\<close>

definition insert_docker_fields ::
  "element \<Rightarrow> pyval \<times> pyval \<times> pyval \<times> pyval \<times> pyval \<Rightarrow> (pyexc + nat) \<times> element" where
  "insert_docker_fields dockercloud args =
     (case args of (name, server_url, connect_timeout, read_timeout, capacity) \<Rightarrow>
      and_then (subelement_with_text dockercloud ''name'' name) (\<lambda>dc.
      and_then (SubElement dc ''templates'' [(''class'', ''empty-list'')]) (\<lambda>dc.
      and_then (subelement_with_text dc ''serverUrl'' server_url) (\<lambda>dc.
      and_then (subelement_with_text dc ''connectTimeout'' connect_timeout) (\<lambda>dc.
      and_then (subelement_with_text dc ''readTimeout'' read_timeout) (\<lambda>dc.
      and_then (SubElement dc ''credentialsId'' []) (\<lambda>dc.
      subelement_with_text dc ''containerCap'' capacity)))))))"

text \<open>\<^verbatim>\<open>_insert_docker\<close>, before decoration.  An exception leaves the tree with what
  was appended before it.\<close>

definition insert_docker_func ::
  "element_tree \<Rightarrow> pyval \<times> string \<times> pyval \<times> pyval \<times> pyval \<times> pyval
     \<Rightarrow> (pyexc + unit) \<times> element_tree" where
  "insert_docker_func tree args =
     (case args of (name, version, server_url, connect_timeout, read_timeout, capacity) \<Rightarrow>
      let hudson = getroot tree
      in (case find_or_add ''clouds'' hudson of
            (Inl e, hudson1) \<Rightarrow> (Inl e, ElementTree hudson1)
          | (Inr ci, hudson1) \<Rightarrow>
              (let clouds = child hudson1 ci
               in (case (case for_dockercloud (findall dockercloud_tag clouds) of
                           Some i \<Rightarrow> (Inr i, clouds)
                         | None \<Rightarrow>
                             SubElement clouds dockercloud_tag
                               [(''plugin'', ''docker-plugin@'' @ version)]) of
                     (Inl e, clouds1) \<Rightarrow> (Inl e, ElementTree (set_child hudson1 ci clouds1))
                   | (Inr di, clouds1) \<Rightarrow>
                       (case insert_docker_fields (child clouds1 di)
                               (name, server_url, connect_timeout, read_timeout, capacity) of
                          (Inl e, dc) \<Rightarrow>
                            (Inl e, ElementTree (set_child hudson1 ci (set_child clouds1 di dc)))
                        | (Inr u, dc) \<Rightarrow>
                            (Inr (),
                             ElementTree (set_child hudson1 ci (set_child clouds1 di dc))))))))"

definition insert_docker ::
  "element_tree \<Rightarrow> pyval \<times> string \<times> pyval \<times> pyval \<times> pyval \<times> pyval
     \<Rightarrow> (pyexc + unit) \<times> element_tree" where
  "insert_docker = root_tag ''hudson'' insert_docker_func"

subsection \<open>The admin e-mail mutator\<close>

definition set_admin_email_func :: "element_tree \<Rightarrow> string \<Rightarrow> (pyexc + unit) \<times> element_tree" where
  "set_admin_email_func tree emailaddress =
     (let root = getroot tree
      in (case find_or_add ''adminAddress'' root of
            (Inl e, root1) \<Rightarrow> (Inl e, ElementTree root1)
          | (Inr i, root1) \<Rightarrow>
              (case assign_text (child root1 i) emailaddress of
                 (Inl e, email) \<Rightarrow> (Inl e, ElementTree (set_child root1 i email))
               | (Inr u, email) \<Rightarrow> (Inr (), ElementTree (set_child root1 i email)))))"

definition set_admin_email :: "element_tree \<Rightarrow> string \<Rightarrow> (pyexc + unit) \<times> element_tree" where
  "set_admin_email = root_tag ''jenkins.model.JenkinsLocationConfiguration'' set_admin_email_func"

subsection \<open>Serialisation through lxml\<close>

text \<open>
  \<^verbatim>\<open>etree.tostring\<close> and \<^verbatim>\<open>ElementTree.write\<close> are lxml's; the module only chooses
  their keyword arguments.  Both are modelled by one serialiser that takes those
  arguments: the output encoding, whether an XML declaration is written, and
  whether the output is pretty-printed.  The layout follows libxml2's formatted
  output: an element without content is \<^verbatim>\<open><t/>\<close>, the children of an element
  without text stand on lines of their own, indented by two spaces a level (and by
  no more than sixty spaces), and nothing is indented inside an element that has
  text.  A character outside ASCII
  is a numeric character reference in an ASCII output and a two-byte sequence in
  UTF-8.
\<close>

datatype encoding = ASCII | UTF8

definition encoding_name :: "encoding \<Rightarrow> string" where
  "encoding_name enc = (case enc of ASCII \<Rightarrow> ''ASCII'' | UTF8 \<Rightarrow> ''UTF-8'')"

definition out_char :: "encoding \<Rightarrow> char \<Rightarrow> string" where
  "out_char enc c =
     (if (of_char c :: nat) < 128 then [c]
      else case enc of
             ASCII \<Rightarrow> ''&#'' @ digits (of_char c) @ '';''
           | UTF8 \<Rightarrow> [char_of (192 + (of_char c :: nat) div 64),
                      char_of (128 + (of_char c :: nat) mod 64)])"

definition encode :: "encoding \<Rightarrow> string \<Rightarrow> string" where
  "encode enc s = concat (map (out_char enc) s)"

definition escape_text :: "encoding \<Rightarrow> string \<Rightarrow> string" where
  "escape_text enc s =
     concat (map (\<lambda>c. if c = CHR ''&'' then ''&amp;''
                       else if c = CHR ''<'' then ''&lt;''
                       else if c = CHR ''>'' then ''&gt;''
                       else if c = CHR 0x0D then ''&#13;''
                       else out_char enc c) s)"

definition escape_attr :: "encoding \<Rightarrow> string \<Rightarrow> string" where
  "escape_attr enc s =
     concat (map (\<lambda>c. if c = CHR ''&'' then ''&amp;''
                       else if c = CHR ''<'' then ''&lt;''
                       else if c = CHR ''>'' then ''&gt;''
                       else if c = CHR 0x22 then ''&quot;''
                       else if c = CHR 0x0A then ''&#10;''
                       else if c = CHR 0x0D then ''&#13;''
                       else if c = CHR 0x09 then ''&#9;''
                       else out_char enc c) s)"

definition indent :: "nat \<Rightarrow> string" where
  "indent lvl = replicate (2 * min lvl 30) (CHR '' '')"

definition dump_attrib :: "encoding \<Rightarrow> (string \<times> string) list \<Rightarrow> string" where
  "dump_attrib enc att =
     concat (map (\<lambda>(k, v). '' '' @ encode enc k @ ''='' @ [CHR 0x22] @ escape_attr enc v @ [CHR 0x22]) att)"

fun dump_element :: "encoding \<Rightarrow> bool \<Rightarrow> nat \<Rightarrow> element \<Rightarrow> string" where
  "dump_element enc fmt lvl (Element tg att tx cs) =
     (let fmt1 = (fmt \<and> tx = None)
      in ''<'' @ encode enc tg @ dump_attrib enc att @
         (if tx = None \<and> cs = [] then ''/>''
          else ''>'' @ (case tx of None \<Rightarrow> [] | Some t \<Rightarrow> escape_text enc t) @
               (if fmt1 then [CHR 0x0A] else []) @
               concat (map (\<lambda>c. (if fmt1 then indent (Suc lvl) else []) @
                                  dump_element enc fmt1 (Suc lvl) c @
                                  (if fmt1 then [CHR 0x0A] else [])) cs) @
               (if fmt1 then indent lvl else []) @
               ''</'' @ encode enc tg @ ''>''))"

definition xml_declaration_line :: "encoding \<Rightarrow> string" where
  "xml_declaration_line enc =
     ''<?xml version='' @ [CHR 0x27] @ ''1.0'' @ [CHR 0x27] @
     '' encoding='' @ [CHR 0x27] @ encoding_name enc @ [CHR 0x27] @ ''?>'' @ [CHR 0x0A]"

text \<open>The serialiser with lxml's keyword arguments; \<open>None\<close> is an argument left out
  (the encoding then is ASCII, and no declaration is written for ASCII or UTF-8).\<close>

definition lxml_serialize :: "element_tree \<Rightarrow> bool \<Rightarrow> bool option \<Rightarrow> encoding option \<Rightarrow> string" where
  "lxml_serialize tree pretty_print xml_declaration encoding =
     (let enc = (case encoding of None \<Rightarrow> ASCII | Some e \<Rightarrow> e);
          decl = (case xml_declaration of None \<Rightarrow> False | Some b \<Rightarrow> b)
      in (if decl then xml_declaration_line enc else []) @
         dump_element enc pretty_print 0 (getroot tree) @
         (if pretty_print then [CHR 0x0A] else []))"

text \<open>\<^verbatim>\<open>etree.tostring(tree, pretty_print=True)\<close>, as \<^verbatim>\<open>_xmlpp\<close> and
  \<^verbatim>\<open>dockercloud\<close> call it.\<close>

definition xmlpp :: "element_tree \<Rightarrow> string" where
  "xmlpp tree = lxml_serialize tree True None None"

subsection \<open>The diff\<close>

text \<open>\<^verbatim>\<open>str.splitlines\<close>: lines end at a line feed, a carriage return, or the pair.\<close>

fun splitlines_from :: "string \<Rightarrow> string \<Rightarrow> string list" where
  "splitlines_from acc [] = (if acc = [] then [] else [rev acc])"
| "splitlines_from acc [c] =
     (if c = CHR 0x0A \<or> c = CHR 0x0D then [rev acc] else [rev (c # acc)])"
| "splitlines_from acc (c # d # cs) =
     (if c = CHR 0x0D \<and> d = CHR 0x0A then rev acc # splitlines_from [] cs
      else if c = CHR 0x0A \<or> c = CHR 0x0D then rev acc # splitlines_from [] (d # cs)
      else splitlines_from (c # acc) (d # cs))"

definition splitlines :: "string \<Rightarrow> string list" where
  "splitlines s = splitlines_from [] s"

text \<open>
  \<^verbatim>\<open>difflib.unified_diff\<close> is a generator function: calling it computes nothing
  and returns a generator object, which holds the two lists of lines.  The module
  never iterates over it.
\<close>

datatype generator = unified_diff "string list" "string list"

definition changes_diff :: "string \<Rightarrow> string \<Rightarrow> generator" where
  "changes_diff before after = unified_diff (splitlines before) (splitlines after)"

text \<open>\<^verbatim>\<open>sep.join(items)\<close>: every item must be a string, or \<^verbatim>\<open>TypeError\<close> is raised.\<close>

datatype item = StrItem string | GeneratorItem generator

fun join :: "string \<Rightarrow> item list \<Rightarrow> pyexc + string" where
  "join sep [] = Inr []"
| "join sep (GeneratorItem g # rest) =
     Inl (TypeError ''sequence item: expected string, generator found'')"
| "join sep (StrItem s # rest) =
     (if rest = [] then Inr s
      else case join sep rest of Inl e \<Rightarrow> Inl e | Inr t \<Rightarrow> Inr (s @ sep @ t))"

subsection \<open>Configuration files\<close>

text \<open>
  What Salt injects into the module: the pillar value \<^verbatim>\<open>jenkins.home\<close> and the
  option \<^verbatim>\<open>test\<close> (dry run).  lxml's parser (with \<^verbatim>\<open>remove_blank_text\<close>) is a
  parameter: it gives the tree of a well-formed file and \<open>None\<close> for a malformed
  one.
\<close>

record salt =
  pillar_jenkins_home :: string
  opts_test :: bool
  XMLParser :: "string \<Rightarrow> element_tree option"

type_synonym filesystem = "string \<rightharpoonup> string"

text \<open>\<^verbatim>\<open>os.path.join(a, b)\<close> on POSIX paths.\<close>

definition path_join :: "string \<Rightarrow> string \<Rightarrow> string" where
  "path_join a b =
     (if take 1 b = ''/'' then b
      else if a = [] \<or> drop (length a - 1) a = ''/'' then a @ b
      else a @ ''/'' @ b)"

definition get_config :: "salt \<Rightarrow> filesystem \<Rightarrow> string \<Rightarrow> pyexc + string" where
  "get_config env fs fname =
     (let jenkins_home = pillar_jenkins_home env;
          fpath = path_join jenkins_home fname
      in case fs fpath of
           None \<Rightarrow> Inl (IOError (fname @ '' not found in jenkins home directory '' @ jenkins_home))
         | Some contents \<Rightarrow> Inr fpath)"

definition parse_config :: "salt \<Rightarrow> filesystem \<Rightarrow> string \<Rightarrow> pyexc + element_tree" where
  "parse_config env fs fname =
     (case get_config env fs fname of
        Inl e \<Rightarrow> Inl e
      | Inr fpath \<Rightarrow>
          (case fs fpath of
             None \<Rightarrow> Inl (IOError fpath)
           | Some contents \<Rightarrow>
               (case XMLParser env contents of
                  None \<Rightarrow> Inl XMLSyntaxError
                | Some tree \<Rightarrow> Inr tree)))"

text \<open>\<^verbatim>\<open>_write_config(fname, tree)\<close>: \<^verbatim>\<open>tree.write(fpath, pretty_print=True,
  xml_declaration=True, encoding='UTF-8')\<close> replaces the contents of the file.\<close>

definition write_config :: "salt \<Rightarrow> filesystem \<Rightarrow> string \<Rightarrow> element_tree \<Rightarrow> (pyexc + unit) \<times> filesystem" where
  "write_config env fs fname tree =
     (case get_config env fs fname of
        Inl e \<Rightarrow> (Inl e, fs)
      | Inr fpath \<Rightarrow> (Inr (), fs(fpath \<mapsto> lxml_serialize tree True (Some True) (Some UTF8))))"

subsection \<open>Results and the loading decorator\<close>

record change_result =
  ret_changes :: "(string \<times> string) list"
  ret_comment :: string
  ret_name :: string
  ret_result :: "bool option"

definition empty_result :: "string \<Rightarrow> change_result" where
  "empty_result name =
     \<lparr>ret_changes = [], ret_comment = [], ret_name = name, ret_result = None\<rparr>"

text \<open>A call of \<^verbatim>\<open>_empty_result\<close> with the given positional arguments: the function
  has one parameter and no default for it.\<close>

definition call_empty_result :: "string list \<Rightarrow> pyexc + change_result" where
  "call_empty_result args =
     (case args of
        [name] \<Rightarrow> Inr (empty_result name)
      | _ \<Rightarrow> Inl (TypeError ''_empty_result() takes exactly 1 argument''))"

text \<open>\<^verbatim>\<open>_error\<close> is called from \<^verbatim>\<open>error_func\<close> only, and the module never calls
  \<^verbatim>\<open>error_func\<close>.\<close>

definition error :: "change_result \<Rightarrow> string \<Rightarrow> change_result" where
  "error ret msg = ret\<lparr>ret_comment := msg, ret_result := Some False\<rparr>"

text \<open>
  What a state function hands back to its caller: a result dictionary, or the
  function object \<^verbatim>\<open>error_func\<close> that the wrapper of \<^verbatim>\<open>_config_xmltree\<close> defines
  and returns without calling it (a closure over the wrapper's \<^verbatim>\<open>ret\<close>).
\<close>

datatype retval = Dict change_result | Function_error_func change_result

text \<open>The keyword arguments of a state function; \<open>None\<close> is an argument the caller
  left out.  \<open>tree_kw\<close> is the keyword \<^verbatim>\<open>_tree\<close>.\<close>

record kwargs =
  conffile :: "string option"
  tree_kw :: "element_tree option"

record dockercloud_kwargs = kwargs +
  server_url :: pyval
  connect_timeout :: "pyval option"
  read_timeout :: "pyval option"
  capacity :: "pyval option"

text \<open>
  \<^verbatim>\<open>_config_xmltree(func)\<close>.  The wrapper reads \<^verbatim>\<open>kwargs['conffile']\<close> (a
  \<^verbatim>\<open>KeyError\<close> when the caller passed none), parses the file, and on any exception
  of the parse returns \<^verbatim>\<open>error_func\<close>; otherwise it calls the state function with
  the tree in \<^verbatim>\<open>_tree\<close>.
\<close>

definition config_xmltree ::
  "(salt \<Rightarrow> filesystem \<Rightarrow> string \<Rightarrow> 'k kwargs_scheme \<Rightarrow> (pyexc + retval) \<times> filesystem)
     \<Rightarrow> salt \<Rightarrow> filesystem \<Rightarrow> string \<Rightarrow> 'k kwargs_scheme \<Rightarrow> (pyexc + retval) \<times> filesystem" where
  "config_xmltree func =
     wraps func (\<lambda>env fs name kw.
       case conffile kw of
         None \<Rightarrow> (Inl (KeyError ''conffile''), fs)
       | Some fname \<Rightarrow>
           (let ret = empty_result name
            in (case parse_config env fs fname of
                  Inl e \<Rightarrow> (Inr (Function_error_func ret), fs)
                | Inr tree \<Rightarrow> func env fs name (kw\<lparr>tree_kw := Some tree\<rparr>))))"

subsection \<open>The state functions\<close>

text \<open>
  \<^verbatim>\<open>dockercloud\<close>, before decoration.  Line 163 and line 167 join a list whose third
  item is the generator of \<^verbatim>\<open>_changes_diff\<close>.  Line 166 reads
  \<^verbatim>\<open>_write_config(tree, conffile)\<close>: the function has the parameter \<^verbatim>\<open>_tree\<close> and
  no local or global variable \<^verbatim>\<open>tree\<close>, so evaluating the arguments of the call
  raises \<^verbatim>\<open>NameError\<close> before \<^verbatim>\<open>_write_config\<close> is entered.
\<close>

definition dockercloud_func ::
  "salt \<Rightarrow> filesystem \<Rightarrow> string \<Rightarrow> 'k dockercloud_kwargs_scheme \<Rightarrow> (pyexc + retval) \<times> filesystem" where
  "dockercloud_func env fs name kw =
     (let url = server_url kw;
          ctimeout = (case connect_timeout kw of None \<Rightarrow> PyInt 0 | Some v \<Rightarrow> v);
          rtimeout = (case read_timeout kw of None \<Rightarrow> PyInt 0 | Some v \<Rightarrow> v);
          cap = (case capacity kw of None \<Rightarrow> PyInt 100 | Some v \<Rightarrow> v);
          cfile = (case conffile kw of None \<Rightarrow> ''config.xml'' | Some f \<Rightarrow> f);
          version = ''0.15.0'';
          ret = empty_result name
      in (case tree_kw kw of
            None \<Rightarrow> (Inl (TypeError ''cannot serialise None''), fs)
          | Some tree \<Rightarrow>
              (let before = lxml_serialize tree True None None
               in (case insert_docker tree (PyStr name, version, url, ctimeout, rtimeout, cap) of
                     (Inl e, tree1) \<Rightarrow> (Inl e, fs)
                   | (Inr u, tree1) \<Rightarrow>
                       (let after = lxml_serialize tree1 True None None;
                            changes = changes_diff before after;
                            comment = ''updated configuration file '' @ cfile
                        in if opts_test env then
                             (case join [CHR 0x0A]
                                     [StrItem (''would '' @ comment), StrItem ''diff'',
                                      GeneratorItem changes] of
                                Inl e \<Rightarrow> (Inl e, fs)
                              | Inr c \<Rightarrow>
                                  (Inr (Dict (ret\<lparr>ret_comment := c, ret_result := None\<rparr>)), fs))
                           else (Inl (NameError ''tree''), fs))))))"

definition dockercloud ::
  "salt \<Rightarrow> filesystem \<Rightarrow> string \<Rightarrow> 'k dockercloud_kwargs_scheme \<Rightarrow> (pyexc + retval) \<times> filesystem" where
  "dockercloud = config_xmltree dockercloud_func"

text \<open>
  \<^verbatim>\<open>adminemail\<close>, before decoration.  Its first statement calls \<^verbatim>\<open>_empty_result()\<close>
  with no argument.  The statements after it are modelled as they are written: the
  apply branch sets the result to true and calls no write.
\<close>

definition adminemail_func ::
  "salt \<Rightarrow> filesystem \<Rightarrow> string \<Rightarrow> 'k kwargs_scheme \<Rightarrow> (pyexc + retval) \<times> filesystem" where
  "adminemail_func env fs name kw =
     (case call_empty_result [] of
        Inl e \<Rightarrow> (Inl e, fs)
      | Inr ret \<Rightarrow>
          (let comment = ''set admin email to '' @ name
           in (case tree_kw kw of
                 None \<Rightarrow> (Inl (TypeError ''cannot serialise None''), fs)
               | Some tree \<Rightarrow>
                   (let before = xmlpp tree
                    in (case set_admin_email tree name of
                          (Inl e, tree1) \<Rightarrow> (Inl e, fs)
                        | (Inr u, tree1) \<Rightarrow>
                            (let after = xmlpp tree1;
                                 changes = changes_diff before after
                             in if opts_test env then
                                  (case join [CHR 0x0A]
                                          [StrItem (''would '' @ comment), StrItem ''diff'',
                                           GeneratorItem changes] of
                                     Inl e \<Rightarrow> (Inl e, fs)
                                   | Inr c \<Rightarrow> (Inr (Dict (ret\<lparr>ret_comment := c\<rparr>)), fs))
                                else
                                  (case join [CHR 0x0A]
                                          [StrItem comment, StrItem ''diff'', GeneratorItem changes] of
                                     Inl e \<Rightarrow> (Inl e, fs)
                                   | Inr c \<Rightarrow>
                                       (Inr (Dict (ret\<lparr>ret_comment := c,
                                                      ret_result := Some True\<rparr>)), fs))))))))"

definition adminemail ::
  "salt \<Rightarrow> filesystem \<Rightarrow> string \<Rightarrow> 'k kwargs_scheme \<Rightarrow> (pyexc + retval) \<times> filesystem" where
  "adminemail = config_xmltree adminemail_func"

subsection \<open>Observations and example inputs\<close>

text \<open>The \<^verbatim>\<open>adminAddress\<close> elements under the root of a document.\<close>

definition admin_addresses :: "element_tree \<Rightarrow> element list" where
  "admin_addresses tree = filter (\<lambda>e. tag e = ''adminAddress'') (children (getroot tree))"

text \<open>For every docker cloud entry under a \<^verbatim>\<open>clouds\<close> element of the root, the texts of
  its \<^verbatim>\<open>name\<close> children.\<close>

definition entry_names :: "element_tree \<Rightarrow> string option list list" where
  "entry_names tree =
     map (\<lambda>e. map etext (filter (\<lambda>c. tag c = ''name'') (children e)))
       (concat (map (\<lambda>clouds. filter (\<lambda>e. tag e = dockercloud_tag) (children clouds))
          (filter (\<lambda>c. tag c = ''clouds'') (children (getroot tree)))))"

text \<open>Documents whose names, attributes and text are all ASCII.\<close>

definition ascii :: "string \<Rightarrow> bool" where
  "ascii s = list_all (\<lambda>c. (of_char c :: nat) < 128) s"

fun ascii_element :: "element \<Rightarrow> bool" where
  "ascii_element (Element tg att tx cs) =
     (ascii tg \<and> list_all (\<lambda>(k, v). ascii k \<and> ascii v) att
      \<and> (case tx of None \<Rightarrow> True | Some t \<Rightarrow> ascii t)
      \<and> list_all ascii_element cs)"

text \<open>
  Example inputs.  The Jenkins home is \<^verbatim>\<open>/var/lib/jenkins\<close>; the parser of the
  examples knows three well-formed files and takes every other content as
  malformed.
\<close>

definition example_location :: "element list \<Rightarrow> element_tree" where
  "example_location cs =
     ElementTree (Element ''jenkins.model.JenkinsLocationConfiguration'' [] None cs)"

definition example_parser :: "string \<Rightarrow> element_tree option" where
  "example_parser contents =
     (if contents = ''<hudson/>'' then Some (ElementTree (Element ''hudson'' [] None []))
      else if contents = ''<project/>'' then Some (ElementTree (Element ''project'' [] None []))
      else if contents = ''<jenkins.model.JenkinsLocationConfiguration/>''
      then Some (example_location [])
      else None)"

definition example_env :: "bool \<Rightarrow> salt" where
  "example_env dry_run =
     \<lparr>pillar_jenkins_home = ''/var/lib/jenkins'', opts_test = dry_run,
      XMLParser = example_parser\<rparr>"

definition example_fs :: "string \<Rightarrow> filesystem" where
  "example_fs contents = [''/var/lib/jenkins/config.xml'' \<mapsto> contents]"

definition example_kwargs :: dockercloud_kwargs where
  "example_kwargs =
     \<lparr>conffile = Some ''config.xml'', tree_kw = None, server_url = PyStr ''http://d:2376'',
      connect_timeout = None, read_timeout = None, capacity = None\<rparr>"

definition example_email_kwargs :: kwargs where
  "example_email_kwargs = \<lparr>conffile = Some ''config.xml'', tree_kw = None\<rparr>"

definition example_args :: "string \<Rightarrow> pyval \<times> string \<times> pyval \<times> pyval \<times> pyval \<times> pyval" where
  "example_args nm = (PyStr nm, ''0.15.0'', PyStr ''http://d:2376'', PyInt 0, PyInt 0, PyInt 100)"

text \<open>The entry that \<open>insert_docker\<close> creates for \<open>example_args nm\<close>, and a
  \<^verbatim>\<open>hudson\<close> document holding the given entries.\<close>

definition example_fields :: "string \<Rightarrow> element list" where
  "example_fields nm =
     [Element ''name'' [] (Some nm) [],
      Element ''templates'' [(''class'', ''empty-list'')] None [],
      Element ''serverUrl'' [] (Some ''http://d:2376'') [],
      Element ''connectTimeout'' [] (Some ''0'') [],
      Element ''readTimeout'' [] (Some ''0'') [],
      Element ''credentialsId'' [] None [],
      Element ''containerCap'' [] (Some ''100'') []]"

definition example_entry :: "string \<Rightarrow> element" where
  "example_entry nm =
     Element dockercloud_tag [(''plugin'', ''docker-plugin@0.15.0'')] None (example_fields nm)"

definition example_hudson :: "element list \<Rightarrow> element_tree" where
  "example_hudson entries =
     ElementTree (Element ''hudson'' [] None [Element ''clouds'' [] None entries])"

section \<open>Properties\<close>

subsection \<open>Children and references\<close>

lemma find_child_None: "find_child t cs = None \<Longrightarrow> filter (\<lambda>e. tag e = t) cs = []"
  by (induction cs) (auto split: if_splits)

lemma find_child_Some_bound: "find_child t cs = Some i \<Longrightarrow> i < length cs"
  by (induction cs arbitrary: i) (auto split: if_splits)

lemma find_child_Some_tag: "find_child t cs = Some i \<Longrightarrow> tag (cs ! i) = t"
  by (induction cs arbitrary: i) (auto split: if_splits)

lemma filter_update_first:
  "find_child t cs = Some i \<Longrightarrow> tag e = t \<Longrightarrow>
   filter (\<lambda>x. tag x = t) (cs[i := e]) = e # tl (filter (\<lambda>x. tag x = t) cs)"
  by (induction cs arbitrary: i) (auto split: if_splits)

lemma child_set_child: "i < length (children p) \<Longrightarrow> child (set_child p i c) i = c"
  by (simp add: child_def set_child_def)

lemma for_dockercloud_bound:
  "for_dockercloud (findall_from k t cs) = Some i \<Longrightarrow> k \<le> i \<and> i < k + length cs"
proof (induction cs arbitrary: k)
  case Nil
  then show ?case by simp
next
  case (Cons c cs)
  then show ?case
    by (fastforce split: if_splits option.splits)
qed

lemma digits_0: "digits 0 = ''0''"
  by (simp add: digits.simps)

lemma digits_100: "digits 100 = ''100''"
  by (simp add: digits.simps)

subsection \<open>Strings that pass lxml's checks\<close>

lemma valid_tags:
  "valid_name ''clouds''" "valid_name dockercloud_tag" "valid_name ''name''"
  "valid_name ''templates''" "valid_name ''serverUrl''" "valid_name ''connectTimeout''"
  "valid_name ''readTimeout''" "valid_name ''credentialsId''" "valid_name ''containerCap''"
  "valid_name ''adminAddress''" "valid_name ''plugin''" "valid_name ''class''"
  "xml_compatible ''empty-list''"
  by (simp_all add: valid_name_def name_start_char_def name_char_def dockercloud_tag_def
      xml_compatible_def xml_char_def)

lemma xml_compatible_append:
  "xml_compatible (s @ t) = (xml_compatible s \<and> xml_compatible t)"
  by (simp add: xml_compatible_def)

lemma xml_compatible_digits: "xml_compatible (digits n)"
proof (induction n rule: digits.induct)
  case (1 n)
  have digit: "xml_char (''0123456789'' ! k)" if "k < 10" for k
  proof -
    from that have "k \<in> {0, 1, 2, 3, 4, 5, 6, 7, 8, 9}" by auto
    then show ?thesis by (auto simp: xml_char_def)
  qed
  show ?case
  proof (cases "n < 10")
    case True
    then show ?thesis
      using digit [of n] by (subst digits.simps) (simp add: xml_compatible_def)
  next
    case False
    then show ?thesis
      using "1" digit [of "n mod 10"]
      by (subst digits.simps) (simp add: xml_compatible_def)
  qed
qed

lemma xml_compatible_str_int: "xml_compatible (str (PyInt i))"
  using xml_compatible_digits by (simp add: xml_compatible_def xml_char_def)

subsection \<open>The primitives on strings that pass\<close>

lemma SubElement_valid:
  "valid_name tagname \<Longrightarrow> list_all (\<lambda>(k, v). valid_name k \<and> xml_compatible v) att \<Longrightarrow>
   SubElement parent tagname att =
     (Inr (length (children parent)),
      Element (tag parent) (attrib parent) (etext parent)
        (children parent @ [Element tagname att None []]))"
  by (simp add: SubElement_def)

lemma subelement_with_text_eq:
  "valid_name tagname \<Longrightarrow> xml_compatible (str txt) \<Longrightarrow>
   subelement_with_text parent tagname txt =
     (Inr (length (children parent)),
      Element (tag parent) (attrib parent) (etext parent)
        (children parent @ [Element tagname [] (Some (str txt)) []]))"
  by (simp add: subelement_with_text_def SubElement_valid assign_text_def set_child_def
      set_text_def child_def)

lemma insert_docker_fields_eq:
  assumes "xml_compatible (str name)" "xml_compatible (str url)" "xml_compatible (str ct)"
    "xml_compatible (str rt)" "xml_compatible (str cap)"
  shows "insert_docker_fields dc (name, url, ct, rt, cap) =
     (Inr (length (children dc) + 6),
      Element (tag dc) (attrib dc) (etext dc)
        (children dc @
          [Element ''name'' [] (Some (str name)) [],
           Element ''templates'' [(''class'', ''empty-list'')] None [],
           Element ''serverUrl'' [] (Some (str url)) [],
           Element ''connectTimeout'' [] (Some (str ct)) [],
           Element ''readTimeout'' [] (Some (str rt)) [],
           Element ''credentialsId'' [] None [],
           Element ''containerCap'' [] (Some (str cap)) []]))"
  using assms
  by (simp add: insert_docker_fields_def and_then_def subelement_with_text_eq SubElement_valid
      valid_tags)

subsection \<open>The root tag guard\<close>

lemma root_tag_mismatch:
  "tag (getroot tree) \<noteq> tagname \<Longrightarrow>
   root_tag tagname func tree args =
     (Inl (ValueError (''root element is not the <'' @ tagname @ ''> tag'')), tree)"
  by (simp add: root_tag_def wraps_def)

lemma root_tag_match:
  "tag (getroot tree) = tagname \<Longrightarrow> root_tag tagname func tree args = func tree args"
  by (simp add: root_tag_def wraps_def)

subsection \<open>What the docker cloud mutator does to the document\<close>

text \<open>The loop left by \<^verbatim>\<open>break\<close>: the fields are appended to the entry it stopped at.\<close>

lemma insert_docker_func_found:
  assumes "find_child ''clouds'' (children (getroot tree)) = Some ci"
    and "for_dockercloud (findall dockercloud_tag (child (getroot tree) ci)) = Some di"
    and "xml_compatible (str name)" "xml_compatible (str url)" "xml_compatible (str ct)"
      "xml_compatible (str rt)" "xml_compatible (str cap)"
  shows "insert_docker_func tree (name, version, url, ct, rt, cap) =
     (Inr (),
      ElementTree (set_child (getroot tree) ci (set_child (child (getroot tree) ci) di
        (Element (tag (child (child (getroot tree) ci) di))
           (attrib (child (child (getroot tree) ci) di))
           (etext (child (child (getroot tree) ci) di))
           (children (child (child (getroot tree) ci) di) @
             [Element ''name'' [] (Some (str name)) [],
              Element ''templates'' [(''class'', ''empty-list'')] None [],
              Element ''serverUrl'' [] (Some (str url)) [],
              Element ''connectTimeout'' [] (Some (str ct)) [],
              Element ''readTimeout'' [] (Some (str rt)) [],
              Element ''credentialsId'' [] None [],
              Element ''containerCap'' [] (Some (str cap)) []])))))"
  using assms
  by (simp add: insert_docker_func_def find_or_add_def insert_docker_fields_eq Let_def)

text \<open>The loop ran to its end: one new entry, with the plugin attribute and the
  seven fields, is appended to the \<^verbatim>\<open>clouds\<close> element.\<close>

lemma insert_docker_func_new:
  assumes "find_child ''clouds'' (children (getroot tree)) = Some ci"
    and "for_dockercloud (findall dockercloud_tag (child (getroot tree) ci)) = None"
    and "xml_compatible version"
    and "xml_compatible (str name)" "xml_compatible (str url)" "xml_compatible (str ct)"
      "xml_compatible (str rt)" "xml_compatible (str cap)"
  shows "insert_docker_func tree (name, version, url, ct, rt, cap) =
     (Inr (),
      ElementTree (set_child (getroot tree) ci
        (Element (tag (child (getroot tree) ci)) (attrib (child (getroot tree) ci))
           (etext (child (getroot tree) ci))
           (children (child (getroot tree) ci) @
            [Element dockercloud_tag [(''plugin'', ''docker-plugin@'' @ version)] None
             [Element ''name'' [] (Some (str name)) [],
              Element ''templates'' [(''class'', ''empty-list'')] None [],
              Element ''serverUrl'' [] (Some (str url)) [],
              Element ''connectTimeout'' [] (Some (str ct)) [],
              Element ''readTimeout'' [] (Some (str rt)) [],
              Element ''credentialsId'' [] None [],
              Element ''containerCap'' [] (Some (str cap)) []]]))))"
proof -
  have plugin: "xml_compatible (''docker-plugin@'' @ version)"
    using assms(3) by (simp add: xml_compatible_def xml_char_def)
  show ?thesis
    using assms plugin
    by (simp add: insert_docker_func_def find_or_add_def insert_docker_fields_eq
        SubElement_valid valid_tags child_def set_child_def Let_def)
qed

text \<open>No \<^verbatim>\<open>clouds\<close> element yet: it is created, with the new entry as its only child.\<close>

lemma insert_docker_func_no_clouds:
  assumes "find_child ''clouds'' (children (getroot tree)) = None"
    and "xml_compatible version"
    and "xml_compatible (str name)" "xml_compatible (str url)" "xml_compatible (str ct)"
      "xml_compatible (str rt)" "xml_compatible (str cap)"
  shows "insert_docker_func tree (name, version, url, ct, rt, cap) =
     (Inr (),
      ElementTree (Element (tag (getroot tree)) (attrib (getroot tree)) (etext (getroot tree))
        (children (getroot tree) @
         [Element ''clouds'' [] None
           [Element dockercloud_tag [(''plugin'', ''docker-plugin@'' @ version)] None
             [Element ''name'' [] (Some (str name)) [],
              Element ''templates'' [(''class'', ''empty-list'')] None [],
              Element ''serverUrl'' [] (Some (str url)) [],
              Element ''connectTimeout'' [] (Some (str ct)) [],
              Element ''readTimeout'' [] (Some (str rt)) [],
              Element ''credentialsId'' [] None [],
              Element ''containerCap'' [] (Some (str cap)) []]]])))"
proof -
  have plugin: "xml_compatible (''docker-plugin@'' @ version)"
    using assms(2) by (simp add: xml_compatible_def xml_char_def)
  show ?thesis
    using assms plugin
    by (simp add: insert_docker_func_def find_or_add_def insert_docker_fields_eq
        SubElement_valid valid_tags child_def set_child_def findall_def Let_def)
qed

lemma example_strings:
  "xml_compatible ''0.15.0''" "xml_compatible ''http://d:2376''" "xml_compatible ''build1''"
  "xml_compatible ''name''" "xml_compatible ''ops@example.com''"
  "xml_compatible ''new@example.com''"
  by (simp_all add: xml_compatible_def xml_char_def)

text \<open>A first run on an empty \<^verbatim>\<open><hudson/>\<close> gives the document of the examples.\<close>

lemma example_first_run:
  assumes "xml_compatible nm"
  shows "insert_docker (ElementTree (Element ''hudson'' [] None [])) (example_args nm)
     = (Inr (), example_hudson [example_entry nm])"
proof -
  have "insert_docker_func (ElementTree (Element ''hudson'' [] None []))
          (PyStr nm, ''0.15.0'', PyStr ''http://d:2376'', PyInt 0, PyInt 0, PyInt 100)
        = (Inr (), example_hudson [example_entry nm])"
    using insert_docker_func_no_clouds [of "ElementTree (Element ''hudson'' [] None [])"
        "''0.15.0''" "PyStr nm" "PyStr ''http://d:2376''" "PyInt 0" "PyInt 0" "PyInt 100"]
      assms example_strings xml_compatible_str_int [of 0] xml_compatible_str_int [of 100]
    by (simp add: example_hudson_def example_entry_def example_fields_def digits_0 digits_100)
  then show ?thesis
    by (simp add: insert_docker_def root_tag_match example_args_def)
qed

subsection \<open>Every outcome of the two state functions\<close>

lemma dockercloud_outcomes:
  "dockercloud env fs name kw =
     (case conffile kw of
        None \<Rightarrow> (Inl (KeyError ''conffile''), fs)
      | Some fname \<Rightarrow>
          (case parse_config env fs fname of
             Inl e \<Rightarrow> (Inr (Function_error_func (empty_result name)), fs)
           | Inr tree \<Rightarrow>
               (case fst (insert_docker tree
                       (PyStr name, ''0.15.0'', server_url kw,
                        (case connect_timeout kw of None \<Rightarrow> PyInt 0 | Some v \<Rightarrow> v),
                        (case read_timeout kw of None \<Rightarrow> PyInt 0 | Some v \<Rightarrow> v),
                        (case capacity kw of None \<Rightarrow> PyInt 100 | Some v \<Rightarrow> v))) of
                  Inl e \<Rightarrow> (Inl e, fs)
                | Inr u \<Rightarrow>
                    if opts_test env
                    then (Inl (TypeError ''sequence item: expected string, generator found''), fs)
                    else (Inl (NameError ''tree''), fs))))"
proof (cases "conffile kw")
  case None
  then show ?thesis by (simp add: dockercloud_def config_xmltree_def wraps_def)
next
  case (Some fname)
  show ?thesis
  proof (cases "parse_config env fs fname")
    case (Inl e)
    with Some show ?thesis by (simp add: dockercloud_def config_xmltree_def wraps_def)
  next
    case (Inr tree)
    let ?args = "(PyStr name, ''0.15.0'', server_url kw,
                  (case connect_timeout kw of None \<Rightarrow> PyInt 0 | Some v \<Rightarrow> v),
                  (case read_timeout kw of None \<Rightarrow> PyInt 0 | Some v \<Rightarrow> v),
                  (case capacity kw of None \<Rightarrow> PyInt 100 | Some v \<Rightarrow> v))"
    obtain r t1 where run: "insert_docker tree ?args = (r, t1)"
      by (cases "insert_docker tree ?args")
    show ?thesis
    proof (cases r)
      case (Inl e)
      with Some Inr run show ?thesis
        by (simp add: dockercloud_def config_xmltree_def wraps_def dockercloud_func_def)
    next
      case (Inr u)
      with Some \<open>parse_config env fs fname = Inr tree\<close> run show ?thesis
        by (simp add: dockercloud_def config_xmltree_def wraps_def dockercloud_func_def Let_def)
    qed
  qed
qed

lemma dockercloud_wrong_root:
  assumes "conffile kw = Some fname" and "parse_config env fs fname = Inr tree"
    and "tag (getroot tree) \<noteq> ''hudson''"
  shows "dockercloud env fs name kw =
           (Inl (ValueError ''root element is not the <hudson> tag''), fs)"
  using assms root_tag_mismatch [of tree "''hudson''" insert_docker_func]
  by (simp add: dockercloud_outcomes insert_docker_def)

lemma adminemail_outcomes:
  "adminemail env fs name kw =
     (case conffile kw of
        None \<Rightarrow> (Inl (KeyError ''conffile''), fs)
      | Some fname \<Rightarrow>
          (case parse_config env fs fname of
             Inl e \<Rightarrow> (Inr (Function_error_func (empty_result name)), fs)
           | Inr tree \<Rightarrow> (Inl (TypeError ''_empty_result() takes exactly 1 argument''), fs)))"
  by (simp add: adminemail_def config_xmltree_def wraps_def adminemail_func_def
      call_empty_result_def split: option.splits sum.splits)

lemma example_parse_hudson:
  "parse_config (example_env b) (example_fs ''<hudson/>'') ''config.xml''
     = Inr (ElementTree (Element ''hudson'' [] None []))"
  by (simp add: parse_config_def get_config_def example_env_def example_fs_def path_join_def
      example_parser_def)

lemma example_parse_project:
  "parse_config (example_env b) (example_fs ''<project/>'') ''config.xml''
     = Inr (ElementTree (Element ''project'' [] None []))"
  by (simp add: parse_config_def get_config_def example_env_def example_fs_def path_join_def
      example_parser_def)

lemma example_parse_location:
  "parse_config (example_env b) (example_fs ''<jenkins.model.JenkinsLocationConfiguration/>'')
       ''config.xml''
     = Inr (example_location [])"
  by (simp add: parse_config_def get_config_def example_env_def example_fs_def path_join_def
      example_parser_def)

lemma example_parse_malformed:
  "parse_config (example_env b) (example_fs ''<hudson'') ''config.xml'' = Inl XMLSyntaxError"
  by (simp add: parse_config_def get_config_def example_env_def example_fs_def path_join_def
      example_parser_def)

lemma example_parse_absent:
  "parse_config (example_env b) Map.empty ''config.xml''
     = Inl (IOError ''config.xml not found in jenkins home directory /var/lib/jenkins'')"
  by (simp add: parse_config_def get_config_def example_env_def path_join_def)

lemma example_dockercloud_mutates:
  "fst (insert_docker (ElementTree (Element ''hudson'' [] None []))
          (PyStr ''build1'', ''0.15.0'', PyStr ''http://d:2376'', PyInt 0, PyInt 0, PyInt 100))
     = Inr ()"
  using example_first_run [of "''build1''"] example_strings
  by (simp add: example_args_def)

subsection \<open>Claims about the reconciliation\<close>

text \<open>
  C2 (absent or malformed file).  The spec has the invocation return a result with
  \<^verbatim>\<open>result=False\<close>, a comment and an empty diff.  The wrapper builds the function
  that would make such a result and returns that function instead of calling it:
  with the file absent, and with a malformed file, both state functions hand back
  \<^verbatim>\<open>error_func\<close>.  No mutator runs and the files are as before.
\<close>

theorem absent_or_malformed_returns_function:
  "dockercloud (example_env False) Map.empty ''build1'' example_kwargs
     = (Inr (Function_error_func (empty_result ''build1'')), Map.empty)
   \<and> dockercloud (example_env False) (example_fs ''<hudson'') ''build1'' example_kwargs
     = (Inr (Function_error_func (empty_result ''build1'')), example_fs ''<hudson'')
   \<and> adminemail (example_env False) Map.empty ''ops@example.com'' example_email_kwargs
     = (Inr (Function_error_func (empty_result ''ops@example.com'')), Map.empty)
   \<and> adminemail (example_env False) (example_fs ''<hudson'') ''ops@example.com''
        example_email_kwargs
     = (Inr (Function_error_func (empty_result ''ops@example.com'')), example_fs ''<hudson'')"
  using example_parse_absent [of False] example_parse_malformed [of False]
  by (simp add: dockercloud_outcomes adminemail_outcomes example_kwargs_def
      example_email_kwargs_def)

text \<open>
  C3 (successful reconciliation).  The spec has a dry run return a result with
  \<^verbatim>\<open>result=None\<close> and an apply run write the file and return \<^verbatim>\<open>result=True\<close>.
  On a present, well-formed file with the right root tag, \<^verbatim>\<open>dockercloud\<close> raises
  \<^verbatim>\<open>TypeError\<close> in a dry run (the join over the diff generator) and \<^verbatim>\<open>NameError\<close>
  in an apply run (the unbound name \<^verbatim>\<open>tree\<close>), and \<^verbatim>\<open>adminemail\<close> raises
  \<^verbatim>\<open>TypeError\<close> in both; nothing is written and no result is returned.
\<close>

theorem successful_reconciliation_raises:
  "dockercloud (example_env True) (example_fs ''<hudson/>'') ''build1'' example_kwargs
     = (Inl (TypeError ''sequence item: expected string, generator found''),
        example_fs ''<hudson/>'')
   \<and> dockercloud (example_env False) (example_fs ''<hudson/>'') ''build1'' example_kwargs
     = (Inl (NameError ''tree''), example_fs ''<hudson/>'')
   \<and> adminemail (example_env True) (example_fs ''<jenkins.model.JenkinsLocationConfiguration/>'')
        ''ops@example.com'' example_email_kwargs
     = (Inl (TypeError ''_empty_result() takes exactly 1 argument''),
        example_fs ''<jenkins.model.JenkinsLocationConfiguration/>'')
   \<and> adminemail (example_env False) (example_fs ''<jenkins.model.JenkinsLocationConfiguration/>'')
        ''ops@example.com'' example_email_kwargs
     = (Inl (TypeError ''_empty_result() takes exactly 1 argument''),
        example_fs ''<jenkins.model.JenkinsLocationConfiguration/>'')"
  using example_parse_hudson [of True] example_parse_hudson [of False]
    example_parse_location [of True] example_parse_location [of False]
    example_dockercloud_mutates
  by (simp add: dockercloud_outcomes adminemail_outcomes example_kwargs_def
      example_email_kwargs_def example_env_def)

text \<open>
  The guard by itself: when the root tag of the document differs from the tag the
  mutator expects, the guarded mutator raises \<^verbatim>\<open>ValueError\<close> (the spec's
  SchemaMismatch) without running, and the document is as it was; an invocation of
  \<^verbatim>\<open>dockercloud\<close> on such a file ends with that exception and leaves every file
  as it was.
\<close>

lemma root_tag_guard_aborts:
  "(tag (getroot tree) \<noteq> tagname \<longrightarrow>
      root_tag tagname func tree args =
        (Inl (ValueError (''root element is not the <'' @ tagname @ ''> tag'')), tree))
   \<and> (tag (getroot tree) \<noteq> ''hudson'' \<longrightarrow>
      insert_docker tree dargs =
        (Inl (ValueError ''root element is not the <hudson> tag''), tree))
   \<and> (tag (getroot tree) \<noteq> ''jenkins.model.JenkinsLocationConfiguration'' \<longrightarrow>
      set_admin_email tree emailaddress =
        (Inl (ValueError
           ''root element is not the <jenkins.model.JenkinsLocationConfiguration> tag''), tree))
   \<and> (conffile kw = Some fname \<and> parse_config env fs fname = Inr tree
        \<and> tag (getroot tree) \<noteq> ''hudson'' \<longrightarrow>
      dockercloud env fs name kw =
        (Inl (ValueError ''root element is not the <hudson> tag''), fs))"
proof (intro conjI impI)
  assume "tag (getroot tree) \<noteq> tagname"
  then show "root_tag tagname func tree args =
      (Inl (ValueError (''root element is not the <'' @ tagname @ ''> tag'')), tree)"
    by (rule root_tag_mismatch)
next
  assume "tag (getroot tree) \<noteq> ''hudson''"
  then show "insert_docker tree dargs =
      (Inl (ValueError ''root element is not the <hudson> tag''), tree)"
    using root_tag_mismatch [of tree "''hudson''" insert_docker_func dargs]
    by (simp add: insert_docker_def)
next
  assume "tag (getroot tree) \<noteq> ''jenkins.model.JenkinsLocationConfiguration''"
  then show "set_admin_email tree emailaddress =
      (Inl (ValueError
         ''root element is not the <jenkins.model.JenkinsLocationConfiguration> tag''), tree)"
    using root_tag_mismatch [of tree "''jenkins.model.JenkinsLocationConfiguration''"
        set_admin_email_func emailaddress]
    by (simp add: set_admin_email_def)
next
  assume "conffile kw = Some fname \<and> parse_config env fs fname = Inr tree
        \<and> tag (getroot tree) \<noteq> ''hudson''"
  then show "dockercloud env fs name kw =
      (Inl (ValueError ''root element is not the <hudson> tag''), fs)"
    by (simp add: dockercloud_wrong_root)
qed

text \<open>
  C7 (root tag guard).  The spec has every invocation on a document with the wrong
  root tag abort with SchemaMismatch.  \<^verbatim>\<open>adminemail\<close> on a file whose root is
  \<^verbatim>\<open>project\<close> raises \<^verbatim>\<open>TypeError\<close> at \<^verbatim>\<open>_empty_result()\<close>, its first statement,
  and never comes to the guarded call of \<^verbatim>\<open>_set_admin_email\<close>, which would raise
  the guard's \<^verbatim>\<open>ValueError\<close> on that document, as \<^verbatim>\<open>dockercloud\<close> does.
\<close>

theorem adminemail_wrong_root_raises_type_error:
  "parse_config (example_env False) (example_fs ''<project/>'') ''config.xml''
     = Inr (ElementTree (Element ''project'' [] None []))
   \<and> adminemail (example_env False) (example_fs ''<project/>'') ''ops@example.com''
        example_email_kwargs
     = (Inl (TypeError ''_empty_result() takes exactly 1 argument''), example_fs ''<project/>'')
   \<and> set_admin_email (ElementTree (Element ''project'' [] None [])) ''ops@example.com''
     = (Inl (ValueError
          ''root element is not the <jenkins.model.JenkinsLocationConfiguration> tag''),
        ElementTree (Element ''project'' [] None []))
   \<and> dockercloud (example_env False) (example_fs ''<project/>'') ''build1'' example_kwargs
     = (Inl (ValueError ''root element is not the <hudson> tag''), example_fs ''<project/>'')"
  using example_parse_project [of False]
    root_tag_mismatch [of "ElementTree (Element ''project'' [] None [])"
      "''jenkins.model.JenkinsLocationConfiguration''" set_admin_email_func "''ops@example.com''"]
    dockercloud_wrong_root [of example_kwargs "''config.xml''" "example_env False"
      "example_fs ''<project/>''" "ElementTree (Element ''project'' [] None [])" "''build1''"]
  by (simp add: adminemail_outcomes example_email_kwargs_def example_kwargs_def
      set_admin_email_def)

text \<open>
  C8 (dry run).  With the \<^verbatim>\<open>test\<close> option set, an invocation of \<^verbatim>\<open>dockercloud\<close> or
  of \<^verbatim>\<open>adminemail\<close> leaves every file with the contents it had, whatever the
  arguments and whatever the files hold.
\<close>

theorem dry_run_never_writes:
  assumes "opts_test env"
  shows "snd (dockercloud env fs name kw) = fs \<and> snd (adminemail env fs' name' kw') = fs'"
  by (simp add: dockercloud_outcomes adminemail_outcomes split: option.splits sum.splits)

theorem dry_run_never_writes_witness:
  "opts_test (example_env True)
   \<and> snd (dockercloud (example_env True) (example_fs ''<hudson/>'') ''build1'' example_kwargs)
       = example_fs ''<hudson/>''
   \<and> snd (adminemail (example_env True)
            (example_fs ''<jenkins.model.JenkinsLocationConfiguration/>'') ''ops@example.com''
            example_email_kwargs)
       = example_fs ''<jenkins.model.JenkinsLocationConfiguration/>''"
  using dry_run_never_writes [of "example_env True" "example_fs ''<hudson/>''" "''build1''"
      example_kwargs "example_fs ''<jenkins.model.JenkinsLocationConfiguration/>''"
      "''ops@example.com''" example_email_kwargs]
  by (simp add: example_env_def)

text \<open>
  C10 (\<^verbatim>\<open>adminemail\<close> never returns a result), as amended.  Whenever the
  \<^verbatim>\<open>conffile\<close> keyword names a file that is present and parses, \<^verbatim>\<open>adminemail\<close>
  raises \<^verbatim>\<open>TypeError\<close> at its first statement, the call \<^verbatim>\<open>_empty_result()\<close> without
  the required argument, in either mode and for any address; and on no input at
  all does \<^verbatim>\<open>adminemail\<close> return a result dictionary.
\<close>

theorem adminemail_never_returns_result:
  "(conffile kw = Some fname \<and> parse_config env fs fname = Inr tree \<longrightarrow>
      adminemail env fs name kw =
        (Inl (TypeError ''_empty_result() takes exactly 1 argument''), fs))
   \<and> fst (adminemail env fs name kw) \<noteq> Inr (Dict r)"
  by (simp add: adminemail_outcomes split: option.splits sum.splits)

theorem adminemail_never_returns_result_witness:
  "conffile example_email_kwargs = Some ''config.xml''
   \<and> parse_config (example_env False)
         (example_fs ''<jenkins.model.JenkinsLocationConfiguration/>'') ''config.xml''
       = Inr (example_location [])
   \<and> adminemail (example_env False) (example_fs ''<jenkins.model.JenkinsLocationConfiguration/>'')
       ''ops@example.com'' example_email_kwargs
     = (Inl (TypeError ''_empty_result() takes exactly 1 argument''),
        example_fs ''<jenkins.model.JenkinsLocationConfiguration/>'')
   \<and> fst (adminemail (example_env False)
            (example_fs ''<jenkins.model.JenkinsLocationConfiguration/>'')
            ''ops@example.com'' example_email_kwargs)
       \<noteq> Inr (Dict (empty_result ''ops@example.com''))"
  using adminemail_never_returns_result [of example_email_kwargs "''config.xml''"
      "example_env False" "example_fs ''<jenkins.model.JenkinsLocationConfiguration/>''"
      "example_location []" "''ops@example.com''" "empty_result ''ops@example.com''"]
    example_parse_location [of False]
  by (simp add: example_email_kwargs_def)

text \<open>
  C10 as stated fails where the configuration file is absent: the wrapper returns
  before \<^verbatim>\<open>adminemail\<close>'s own first statement is reached, so the invocation does not
  fail at \<^verbatim>\<open>_empty_result()\<close>; it returns the function \<^verbatim>\<open>error_func\<close>.
\<close>

theorem adminemail_absent_file_counterexample:
  "adminemail (example_env False) Map.empty ''ops@example.com'' example_email_kwargs
     = (Inr (Function_error_func (empty_result ''ops@example.com'')), Map.empty)
   \<and> fst (adminemail (example_env False) Map.empty ''ops@example.com'' example_email_kwargs)
     \<noteq> Inl (TypeError ''_empty_result() takes exactly 1 argument'')"
  using example_parse_absent [of False]
  by (simp add: adminemail_outcomes example_email_kwargs_def)

subsection \<open>Claims about the element primitives and the docker cloud mutator\<close>

text \<open>
  C4 (\<^verbatim>\<open>_subelement_with_text\<close> appends), as amended.  For a valid tag name and a
  value whose string is XML compatible, one call appends exactly one child with
  that tag and the text \<^verbatim>\<open>str(text)\<close>, and returns it; two calls in a row append two
  such siblings.  The field population of \<^verbatim>\<open>_insert_docker\<close> (lines 93 to 101), on
  values whose strings are XML compatible, appends its seven field elements after
  the children the entry already has, so populating the same entry twice leaves
  two copies of every field.
\<close>

theorem subelement_with_text_appends:
  "(valid_name tagname \<and> xml_compatible (str v) \<longrightarrow>
      subelement_with_text parent tagname v =
        (Inr (length (children parent)),
         Element (tag parent) (attrib parent) (etext parent)
           (children parent @ [Element tagname [] (Some (str v)) []]))
      \<and> children (snd (subelement_with_text (snd (subelement_with_text parent tagname v))
                     tagname v))
          = children parent @ [Element tagname [] (Some (str v)) [],
                               Element tagname [] (Some (str v)) []])
   \<and> (xml_compatible (str name) \<and> xml_compatible (str url) \<and> xml_compatible (str ct)
        \<and> xml_compatible (str rt) \<and> xml_compatible (str cap) \<longrightarrow>
      fst (insert_docker_fields dc (name, url, ct, rt, cap)) = Inr (length (children dc) + 6)
      \<and> children (snd (insert_docker_fields dc (name, url, ct, rt, cap)))
          = children dc @
             [Element ''name'' [] (Some (str name)) [],
              Element ''templates'' [(''class'', ''empty-list'')] None [],
              Element ''serverUrl'' [] (Some (str url)) [],
              Element ''connectTimeout'' [] (Some (str ct)) [],
              Element ''readTimeout'' [] (Some (str rt)) [],
              Element ''credentialsId'' [] None [],
              Element ''containerCap'' [] (Some (str cap)) []]
      \<and> children (snd (insert_docker_fields
            (snd (insert_docker_fields dc (name, url, ct, rt, cap))) (name, url, ct, rt, cap)))
          = children dc @
             [Element ''name'' [] (Some (str name)) [],
              Element ''templates'' [(''class'', ''empty-list'')] None [],
              Element ''serverUrl'' [] (Some (str url)) [],
              Element ''connectTimeout'' [] (Some (str ct)) [],
              Element ''readTimeout'' [] (Some (str rt)) [],
              Element ''credentialsId'' [] None [],
              Element ''containerCap'' [] (Some (str cap)) []] @
             [Element ''name'' [] (Some (str name)) [],
              Element ''templates'' [(''class'', ''empty-list'')] None [],
              Element ''serverUrl'' [] (Some (str url)) [],
              Element ''connectTimeout'' [] (Some (str ct)) [],
              Element ''readTimeout'' [] (Some (str rt)) [],
              Element ''credentialsId'' [] None [],
              Element ''containerCap'' [] (Some (str cap)) []])"
proof (intro conjI impI)
  assume "valid_name tagname \<and> xml_compatible (str v)"
  then show "subelement_with_text parent tagname v =
        (Inr (length (children parent)),
         Element (tag parent) (attrib parent) (etext parent)
           (children parent @ [Element tagname [] (Some (str v)) []]))"
    by (simp add: subelement_with_text_eq)
next
  assume "valid_name tagname \<and> xml_compatible (str v)"
  then show "children (snd (subelement_with_text (snd (subelement_with_text parent tagname v))
                     tagname v))
          = children parent @ [Element tagname [] (Some (str v)) [],
                               Element tagname [] (Some (str v)) []]"
    by (simp add: subelement_with_text_eq)
next
  assume "xml_compatible (str name) \<and> xml_compatible (str url) \<and> xml_compatible (str ct)
        \<and> xml_compatible (str rt) \<and> xml_compatible (str cap)"
  then show "fst (insert_docker_fields dc (name, url, ct, rt, cap))
      = Inr (length (children dc) + 6)"
    by (simp add: insert_docker_fields_eq)
next
  assume "xml_compatible (str name) \<and> xml_compatible (str url) \<and> xml_compatible (str ct)
        \<and> xml_compatible (str rt) \<and> xml_compatible (str cap)"
  then show "children (snd (insert_docker_fields dc (name, url, ct, rt, cap)))
          = children dc @
             [Element ''name'' [] (Some (str name)) [],
              Element ''templates'' [(''class'', ''empty-list'')] None [],
              Element ''serverUrl'' [] (Some (str url)) [],
              Element ''connectTimeout'' [] (Some (str ct)) [],
              Element ''readTimeout'' [] (Some (str rt)) [],
              Element ''credentialsId'' [] None [],
              Element ''containerCap'' [] (Some (str cap)) []]"
    by (simp add: insert_docker_fields_eq)
next
  assume "xml_compatible (str name) \<and> xml_compatible (str url) \<and> xml_compatible (str ct)
        \<and> xml_compatible (str rt) \<and> xml_compatible (str cap)"
  then show "children (snd (insert_docker_fields
            (snd (insert_docker_fields dc (name, url, ct, rt, cap))) (name, url, ct, rt, cap)))
          = children dc @
             [Element ''name'' [] (Some (str name)) [],
              Element ''templates'' [(''class'', ''empty-list'')] None [],
              Element ''serverUrl'' [] (Some (str url)) [],
              Element ''connectTimeout'' [] (Some (str ct)) [],
              Element ''readTimeout'' [] (Some (str rt)) [],
              Element ''credentialsId'' [] None [],
              Element ''containerCap'' [] (Some (str cap)) []] @
             [Element ''name'' [] (Some (str name)) [],
              Element ''templates'' [(''class'', ''empty-list'')] None [],
              Element ''serverUrl'' [] (Some (str url)) [],
              Element ''connectTimeout'' [] (Some (str ct)) [],
              Element ''readTimeout'' [] (Some (str rt)) [],
              Element ''credentialsId'' [] None [],
              Element ''containerCap'' [] (Some (str cap)) []]"
    by (simp add: insert_docker_fields_eq)
qed

text \<open>The primitive and the field population on an empty element, and the field
  population on the entry of a first run.\<close>

theorem subelement_with_text_appends_witness:
  "valid_name ''name'' \<and> xml_compatible (str (PyStr ''build1''))
   \<and> xml_compatible (str (PyStr ''http://d:2376'')) \<and> xml_compatible (str (PyInt 0))
   \<and> xml_compatible (str (PyInt 100))
   \<and> subelement_with_text (Element ''entry'' [] None []) ''name'' (PyStr ''build1'')
       = (Inr 0, Element ''entry'' [] None [Element ''name'' [] (Some ''build1'') []])
   \<and> children (snd (subelement_with_text
        (snd (subelement_with_text (Element ''entry'' [] None []) ''name'' (PyStr ''build1'')))
        ''name'' (PyStr ''build1'')))
       = [Element ''name'' [] (Some ''build1'') [], Element ''name'' [] (Some ''build1'') []]
   \<and> children (snd (insert_docker_fields (Element ''entry'' [] None [])
        (PyStr ''build1'', PyStr ''http://d:2376'', PyInt 0, PyInt 0, PyInt 100)))
       = example_fields ''build1''
   \<and> children (snd (insert_docker_fields (example_entry ''build1'')
        (PyStr ''build1'', PyStr ''http://d:2376'', PyInt 0, PyInt 0, PyInt 100)))
       = example_fields ''build1'' @ example_fields ''build1''"
  using subelement_with_text_appends [where tagname = "''name''" and v = "PyStr ''build1''"
      and parent = "Element ''entry'' [] None []" and name = "PyStr ''build1''"
      and url = "PyStr ''http://d:2376''" and ct = "PyInt 0" and rt = "PyInt 0"
      and cap = "PyInt 100" and dc = "Element ''entry'' [] None []"]
    subelement_with_text_appends [where tagname = "''name''" and v = "PyStr ''build1''"
      and parent = "Element ''entry'' [] None []" and name = "PyStr ''build1''"
      and url = "PyStr ''http://d:2376''" and ct = "PyInt 0" and rt = "PyInt 0"
      and cap = "PyInt 100" and dc = "example_entry ''build1''"]
    valid_tags example_strings
  by (simp add: example_entry_def example_fields_def digits_0 digits_100 xml_compatible_def
      xml_char_def)

text \<open>A second run for \<^verbatim>\<open>build1\<close> on the document of a first run, and a run for
  \<^verbatim>\<open>build1\<close> on a document whose entry is named \<^verbatim>\<open>name\<close>.\<close>

lemma example_second_run:
  "insert_docker (example_hudson [example_entry ''build1'']) (example_args ''build1'')
     = (Inr (), example_hudson [example_entry ''build1'', example_entry ''build1''])"
proof -
  have "insert_docker_func (example_hudson [example_entry ''build1''])
          (PyStr ''build1'', ''0.15.0'', PyStr ''http://d:2376'', PyInt 0, PyInt 0, PyInt 100)
        = (Inr (), example_hudson [example_entry ''build1'', example_entry ''build1''])"
    using insert_docker_func_new [of "example_hudson [example_entry ''build1'']" 0
        "''0.15.0''" "PyStr ''build1''" "PyStr ''http://d:2376''" "PyInt 0" "PyInt 0"
        "PyInt 100"]
      example_strings xml_compatible_str_int [of 0] xml_compatible_str_int [of 100]
    by (simp add: example_hudson_def example_entry_def example_fields_def findall_def
        child_def set_child_def dockercloud_tag_def digits_0 digits_100)
  then show ?thesis
    by (simp add: insert_docker_def root_tag_match example_args_def example_hudson_def)
qed

lemma example_run_on_entry_named_name:
  "insert_docker (example_hudson [example_entry ''name'']) (example_args ''build1'')
     = (Inr (),
        example_hudson [Element dockercloud_tag [(''plugin'', ''docker-plugin@0.15.0'')] None
                          (example_fields ''name'' @ example_fields ''build1'')])"
proof -
  have "insert_docker_func (example_hudson [example_entry ''name''])
          (PyStr ''build1'', ''0.15.0'', PyStr ''http://d:2376'', PyInt 0, PyInt 0, PyInt 100)
        = (Inr (),
           example_hudson [Element dockercloud_tag [(''plugin'', ''docker-plugin@0.15.0'')] None
                             (example_fields ''name'' @ example_fields ''build1'')])"
    using insert_docker_func_found [of "example_hudson [example_entry ''name'']" 0 0
        "PyStr ''build1''" "PyStr ''http://d:2376''" "PyInt 0" "PyInt 0" "PyInt 100" "''0.15.0''"]
      example_strings xml_compatible_str_int [of 0] xml_compatible_str_int [of 100]
    by (simp add: example_hudson_def example_entry_def example_fields_def findall_def
        child_def set_child_def dockercloud_tag_def digits_0 digits_100)
  then show ?thesis
    by (simp add: insert_docker_def root_tag_match example_args_def example_hudson_def)
qed

text \<open>
  C4 as stated fails on a value with a control character: the child is appended,
  the assignment of its text raises \<^verbatim>\<open>ValueError\<close>, and the child stays without
  text.  It also fails on the re-run it describes: the second run for \<^verbatim>\<open>build1\<close>
  leaves the entry of the first run with one copy of every field.
\<close>

theorem subelement_with_text_control_character_counterexample:
  "subelement_with_text (Element ''entry'' [] None []) ''name'' (PyStr [CHR 0x01])
     = (Inl (ValueError ''All strings must be XML compatible''),
        Element ''entry'' [] None [Element ''name'' [] None []])
   \<and> children (child (child (getroot
        (snd (insert_docker (example_hudson [example_entry ''build1''])
                (example_args ''build1'')))) 0) 0)
     = example_fields ''build1''"
proof (rule conjI)
  show "subelement_with_text (Element ''entry'' [] None []) ''name'' (PyStr [CHR 0x01])
     = (Inl (ValueError ''All strings must be XML compatible''),
        Element ''entry'' [] None [Element ''name'' [] None []])"
    using valid_tags
    by (simp add: subelement_with_text_def SubElement_def assign_text_def xml_compatible_def
        xml_char_def set_child_def set_text_def child_def)
next
  show "children (child (child (getroot
        (snd (insert_docker (example_hudson [example_entry ''build1''])
                (example_args ''build1'')))) 0) 0)
     = example_fields ''build1''"
    unfolding example_second_run
    by (simp add: example_hudson_def example_entry_def child_def)
qed

text \<open>
  C1 (upsert by name).  The spec has an existing entry whose \<^verbatim>\<open>name\<close> equals the
  requested name updated in place.  The loop compares the entry's name with the
  literal \<^verbatim>\<open>'name'\<close>, not with the argument: on the document that a first run for
  \<^verbatim>\<open>build1\<close> produced, a second run for \<^verbatim>\<open>build1\<close> finds no entry and appends a
  second one with the same name.
\<close>

theorem same_name_creates_second_entry:
  "insert_docker (ElementTree (Element ''hudson'' [] None [])) (example_args ''build1'')
     = (Inr (), example_hudson [example_entry ''build1''])
   \<and> entry_names (example_hudson [example_entry ''build1'']) = [[Some ''build1'']]
   \<and> insert_docker (example_hudson [example_entry ''build1'']) (example_args ''build1'')
     = (Inr (), example_hudson [example_entry ''build1'', example_entry ''build1''])
   \<and> entry_names (example_hudson [example_entry ''build1'', example_entry ''build1''])
     = [[Some ''build1''], [Some ''build1'']]"
proof (intro conjI)
  show "insert_docker (ElementTree (Element ''hudson'' [] None [])) (example_args ''build1'')
     = (Inr (), example_hudson [example_entry ''build1''])"
    by (rule example_first_run) (rule example_strings(3))
next
  show "entry_names (example_hudson [example_entry ''build1'']) = [[Some ''build1'']]"
    by (simp add: entry_names_def example_hudson_def example_entry_def example_fields_def
        dockercloud_tag_def)
next
  show "insert_docker (example_hudson [example_entry ''build1'']) (example_args ''build1'')
     = (Inr (), example_hudson [example_entry ''build1'', example_entry ''build1''])"
    by (rule example_second_run)
next
  show "entry_names (example_hudson [example_entry ''build1'', example_entry ''build1''])
     = [[Some ''build1''], [Some ''build1'']]"
    by (simp add: entry_names_def example_hudson_def example_entry_def example_fields_def
        dockercloud_tag_def)
qed

text \<open>
  C5 (one new entry when none matches).  The spec has one new entry created when no
  existing entry carries the requested name.  A document whose only entry is named
  \<^verbatim>\<open>name\<close> holds no entry named \<^verbatim>\<open>build1\<close>; a run for \<^verbatim>\<open>build1\<close> stops at that
  entry, creates none, and appends the fields for \<^verbatim>\<open>build1\<close> to it.
\<close>

theorem entry_named_name_is_reused:
  "entry_names (example_hudson [example_entry ''name'']) = [[Some ''name'']]
   \<and> fst (insert_docker (example_hudson [example_entry ''name'']) (example_args ''build1''))
     = Inr ()
   \<and> entry_names
       (snd (insert_docker (example_hudson [example_entry ''name'']) (example_args ''build1'')))
     = [[Some ''name'', Some ''build1'']]
   \<and> children (child (child (getroot
        (snd (insert_docker (example_hudson [example_entry ''name'']) (example_args ''build1''))))
          0) 0)
     = example_fields ''name'' @ example_fields ''build1''"
  unfolding example_run_on_entry_named_name
  by (simp add: entry_names_def example_hudson_def example_entry_def example_fields_def
      dockercloud_tag_def child_def)

subsection \<open>Claims about the admin e-mail mutator\<close>

lemma set_admin_email_func_new:
  assumes "find_child ''adminAddress'' (children (getroot tree)) = None"
    and "xml_compatible a"
  shows "set_admin_email_func tree a =
           (Inr (), ElementTree (Element (tag (getroot tree)) (attrib (getroot tree))
              (etext (getroot tree))
              (children (getroot tree) @ [Element ''adminAddress'' [] (Some a) []])))"
  using assms
  by (simp add: set_admin_email_func_def find_or_add_def SubElement_valid valid_tags
      assign_text_def set_child_def set_text_def child_def Let_def)

lemma set_admin_email_func_found:
  assumes "find_child ''adminAddress'' (children (getroot tree)) = Some i"
    and "xml_compatible a"
  shows "set_admin_email_func tree a =
           (Inr (), ElementTree (Element (tag (getroot tree)) (attrib (getroot tree))
              (etext (getroot tree))
              ((children (getroot tree))
                 [i := Element (tag (children (getroot tree) ! i))
                         (attrib (children (getroot tree) ! i)) (Some a)
                         (children (children (getroot tree) ! i))])))"
  using assms
  by (simp add: set_admin_email_func_def find_or_add_def assign_text_def set_child_def
      set_text_def child_def Let_def)

text \<open>One application: the first \<^verbatim>\<open>adminAddress\<close> child holds the address, the other
  ones are as before, and there is at least one.\<close>

lemma set_admin_email_func_addresses:
  assumes "xml_compatible a"
  shows "\<exists>t1. set_admin_email_func tree a = (Inr (), t1)
      \<and> tag (getroot t1) = tag (getroot tree)
      \<and> map etext (admin_addresses t1) = Some a # tl (map etext (admin_addresses tree))
      \<and> length (admin_addresses t1) = max 1 (length (admin_addresses tree))"
proof (cases "find_child ''adminAddress'' (children (getroot tree))")
  case None
  then show ?thesis
    by (simp add: set_admin_email_func_new [OF None assms] admin_addresses_def find_child_None)
next
  case (Some i)
  let ?e = "Element (tag (children (getroot tree) ! i))
              (attrib (children (getroot tree) ! i)) (Some a)
              (children (children (getroot tree) ! i))"
  have tagged: "tag ?e = ''adminAddress''"
    using find_child_Some_tag [OF Some] by simp
  have nonempty: "filter (\<lambda>x. tag x = ''adminAddress'') (children (getroot tree)) \<noteq> []"
    using find_child_Some_bound [OF Some] find_child_Some_tag [OF Some]
    by (auto simp: filter_empty_conv dest: nth_mem)
  show ?thesis
    using filter_update_first [OF Some tagged] nonempty
    by (cases "filter (\<lambda>x. tag x = ''adminAddress'') (children (getroot tree))")
       (simp_all add: set_admin_email_func_found [OF Some assms] admin_addresses_def map_tl)
qed

text \<open>
  C6 (the admin e-mail mutator converges), as amended.  On a document with the
  expected root tag and at most one \<^verbatim>\<open>adminAddress\<close> element under the root, and for
  addresses that are XML compatible, two applications both succeed and leave
  exactly one \<^verbatim>\<open>adminAddress\<close> element, whose text is the second address (the same
  address or another one).
\<close>

theorem set_admin_email_twice:
  assumes "tag (getroot tree) = ''jenkins.model.JenkinsLocationConfiguration''"
    and "length (admin_addresses tree) \<le> 1"
    and "xml_compatible a" and "xml_compatible b"
  shows "fst (set_admin_email tree a) = Inr ()
       \<and> fst (set_admin_email (snd (set_admin_email tree a)) b) = Inr ()
       \<and> map etext (admin_addresses (snd (set_admin_email (snd (set_admin_email tree a)) b)))
           = [Some b]"
proof -
  obtain t1 where t1: "set_admin_email_func tree a = (Inr (), t1)"
      "tag (getroot t1) = tag (getroot tree)"
      "length (admin_addresses t1) = max 1 (length (admin_addresses tree))"
    using set_admin_email_func_addresses [OF assms(3), of tree] by auto
  obtain t2 where t2: "set_admin_email_func t1 b = (Inr (), t2)"
      "map etext (admin_addresses t2) = Some b # tl (map etext (admin_addresses t1))"
    using set_admin_email_func_addresses [OF assms(4), of t1] by auto
  have "length (admin_addresses t1) = 1"
    using t1(3) assms(2) by simp
  then have "tl (map etext (admin_addresses t1)) = []"
    by (cases "admin_addresses t1") simp_all
  with t1 t2 assms(1) show ?thesis
    by (simp add: set_admin_email_def root_tag_match)
qed

text \<open>The scenario of the spec: no \<^verbatim>\<open>adminAddress\<close> at first, then two addresses in
  turn.\<close>

theorem set_admin_email_twice_witness:
  "tag (getroot (example_location [])) = ''jenkins.model.JenkinsLocationConfiguration''
   \<and> length (admin_addresses (example_location [])) \<le> 1
   \<and> xml_compatible ''ops@example.com'' \<and> xml_compatible ''new@example.com''
   \<and> fst (set_admin_email (example_location []) ''ops@example.com'') = Inr ()
   \<and> map etext (admin_addresses
        (snd (set_admin_email (snd (set_admin_email (example_location []) ''ops@example.com''))
           ''new@example.com'')))
       = [Some ''new@example.com'']"
  using set_admin_email_twice [of "example_location []" "''ops@example.com''"
      "''new@example.com''"] example_strings
  by (simp add: example_location_def admin_addresses_def)

text \<open>
  C6 as stated, for every document and every address, fails on a document that
  holds two \<^verbatim>\<open>adminAddress\<close> elements: the mutator sets the first and leaves the
  second, so two applications with the same address leave two elements.  It fails
  as well on an address with a control character: the assignment raises
  \<^verbatim>\<open>ValueError\<close> and the element is left without text.
\<close>

theorem set_admin_email_two_elements_counterexample:
  "map etext (admin_addresses
     (snd (set_admin_email
        (snd (set_admin_email
           (example_location [Element ''adminAddress'' [] (Some ''a@example.com'') [],
                              Element ''adminAddress'' [] (Some ''b@example.com'') []])
           ''ops@example.com''))
        ''ops@example.com'')))
   = [Some ''ops@example.com'', Some ''b@example.com'']
   \<and> fst (set_admin_email (example_location []) [CHR 0x01])
     = Inl (ValueError ''All strings must be XML compatible'')
   \<and> map etext (admin_addresses
        (snd (set_admin_email (snd (set_admin_email (example_location []) [CHR 0x01]))
           [CHR 0x01])))
     = [None]"
  using valid_tags example_strings
  by (simp add: example_location_def admin_addresses_def set_admin_email_def root_tag_def
      wraps_def set_admin_email_func_def find_or_add_def SubElement_def assign_text_def
      set_child_def set_text_def child_def xml_compatible_def xml_char_def)

subsection \<open>Claims about the serialisation\<close>

lemma out_char_ascii: "(of_char c :: nat) < 128 \<Longrightarrow> out_char enc c = [c]"
  by (simp add: out_char_def)

lemma encode_ascii: "ascii s \<Longrightarrow> encode enc s = s"
  by (induction s) (simp_all add: encode_def ascii_def out_char_ascii)

lemma escape_text_ascii: "ascii s \<Longrightarrow> escape_text UTF8 s = escape_text ASCII s"
  by (induction s) (simp_all add: escape_text_def ascii_def out_char_ascii)

lemma escape_attr_ascii: "ascii s \<Longrightarrow> escape_attr UTF8 s = escape_attr ASCII s"
  by (induction s) (simp_all add: escape_attr_def ascii_def out_char_ascii)

lemma dump_attrib_ascii:
  "list_all (\<lambda>(k, v). ascii k \<and> ascii v) att \<Longrightarrow> dump_attrib UTF8 att = dump_attrib ASCII att"
  by (induction att) (auto simp: dump_attrib_def encode_ascii escape_attr_ascii)

lemma dump_element_ascii:
  "ascii_element e \<Longrightarrow> dump_element UTF8 fmt lvl e = dump_element ASCII fmt lvl e"
proof (induction e arbitrary: fmt lvl)
  case (Element tg att tx cs)
  have kids: "dump_element UTF8 f (Suc lvl) c = dump_element ASCII f (Suc lvl) c"
    if "c \<in> set cs" for c f
    using Element that by (simp add: list_all_iff)
  have inner: "(case tx of None \<Rightarrow> [] | Some t \<Rightarrow> escape_text UTF8 t)
             = (case tx of None \<Rightarrow> [] | Some t \<Rightarrow> escape_text ASCII t)"
    using Element.prems by (auto split: option.splits simp: escape_text_ascii)
  from Element.prems have "ascii tg" "list_all (\<lambda>(k, v). ascii k \<and> ascii v) att"
    by simp_all
  then show ?case
    by (simp add: Let_def encode_ascii dump_attrib_ascii inner kids cong: map_cong)
qed

text \<open>
  C9 (one rendering for the diff and for the file), as amended.  For a document
  whose names, attributes and text are ASCII, what \<^verbatim>\<open>_write_config\<close> puts in the
  file is the XML declaration line for UTF-8 followed by the very bytes that
  \<^verbatim>\<open>_xmlpp\<close> renders for the diff.
\<close>

theorem written_bytes_are_declaration_and_diff_bytes:
  assumes "get_config env fs fname = Inr fpath" and "ascii_element (getroot tree)"
  shows "snd (write_config env fs fname tree) fpath
           = Some (xml_declaration_line UTF8 @ xmlpp tree)"
  using assms
  by (simp add: write_config_def lxml_serialize_def xmlpp_def dump_element_ascii)

theorem written_bytes_are_declaration_and_diff_bytes_witness:
  "get_config (example_env False) (example_fs ''<hudson/>'') ''config.xml''
     = Inr ''/var/lib/jenkins/config.xml''
   \<and> ascii_element (getroot (example_hudson [example_entry ''build1'']))
   \<and> snd (write_config (example_env False) (example_fs ''<hudson/>'') ''config.xml''
          (example_hudson [example_entry ''build1''])) ''/var/lib/jenkins/config.xml''
       = Some (xml_declaration_line UTF8 @ xmlpp (example_hudson [example_entry ''build1'']))"
  using written_bytes_are_declaration_and_diff_bytes [of "example_env False"
      "example_fs ''<hudson/>''" "''config.xml''" "''/var/lib/jenkins/config.xml''"
      "example_hudson [example_entry ''build1'']"]
  by (simp add: get_config_def example_env_def example_fs_def path_join_def ascii_def
      example_hudson_def example_entry_def example_fields_def dockercloud_tag_def)

text \<open>
  C9 as stated fails on every document: for \<^verbatim>\<open><hudson/>\<close> the diff is computed on
  the bytes \<^verbatim>\<open><hudson/>\<close> and a line feed, and the file would receive the XML
  declaration before them.
\<close>

theorem written_bytes_differ_counterexample:
  "xmlpp (ElementTree (Element ''hudson'' [] None [])) = ''<hudson/>'' @ [CHR 0x0A]
   \<and> snd (write_config (example_env False) (example_fs ''<hudson/>'') ''config.xml''
          (ElementTree (Element ''hudson'' [] None []))) ''/var/lib/jenkins/config.xml''
       = Some (''<?xml version='' @ [CHR 0x27] @ ''1.0'' @ [CHR 0x27] @ '' encoding=''
               @ [CHR 0x27] @ ''UTF-8'' @ [CHR 0x27] @ ''?>'' @ [CHR 0x0A]
               @ ''<hudson/>'' @ [CHR 0x0A])
   \<and> snd (write_config (example_env False) (example_fs ''<hudson/>'') ''config.xml''
          (ElementTree (Element ''hudson'' [] None []))) ''/var/lib/jenkins/config.xml''
       \<noteq> Some (xmlpp (ElementTree (Element ''hudson'' [] None [])))"
  by (simp add: write_config_def get_config_def example_env_def example_fs_def path_join_def
      xmlpp_def lxml_serialize_def xml_declaration_line_def encoding_name_def encode_def
      out_char_def dump_attrib_def)

end
